theory Spec2Isabelle
  imports Complex_Main
begin

section \<open>Values, objects and the IndexedDB store\<close>

text \<open>
  The application (src/app.js) keeps two IndexedDB object stores, \<open>dailyData\<close> and
  \<open>weights\<close>, both created with \<open>keyPath: 'date'\<close>. JavaScript numbers are modelled as
  reals extended with \<open>NaN\<close> (the result of \<open>parseInt\<close>/\<open>parseFloat\<close> on an empty or
  non-numeric input; a number input never yields an infinity); an object is a finite map
  from property names to values.
\<close>

datatype number = NaN | Num real

datatype jsval = JNum number | JStr string

type_synonym obj = "string \<rightharpoonup> jsval"

text \<open>A request handed to the backend: the store name and the value or key.\<close>

datatype request = Put string obj | Get string jsval | GetAll string

text \<open>
  A promise is rejected either with the string passed to \<open>reject\<close> by the \<open>onerror\<close> callback,
  or with the \<open>DataError\<close> that \<open>store.put\<close> throws inside the promise executor when the value
  has no valid key at the key path.
\<close>

datatype error = Reject string | DataError

text \<open>
  The database: the contents of both stores, the trace of requests issued so far, and the
  backend's behaviour: \<open>aborts db n\<close> says that the request issued as number \<open>n\<close> fails
  (its \<open>onerror\<close> fires). The handlers are registered only after \<open>openDatabase\<close> has
  succeeded, so the handle \<open>db\<close> is set whenever the functions below run.
\<close>

record idb =
  dailyData :: "jsval \<rightharpoonup> obj"
  weights :: "jsval \<rightharpoonup> obj"
  issued :: "request list"
  aborts :: "nat \<Rightarrow> bool"

definition validKey :: "jsval \<Rightarrow> bool" where
  "validKey k = (case k of JNum NaN \<Rightarrow> False | JNum (Num r) \<Rightarrow> True | JStr s \<Rightarrow> True)"

text \<open>\<open>x || 0\<close> and the truthiness of a number.\<close>

definition truthy :: "number \<Rightarrow> bool" where
  "truthy x = (case x of NaN \<Rightarrow> False | Num r \<Rightarrow> r \<noteq> 0)"

definition orZero :: "number \<Rightarrow> number" where
  "orZero x = (if truthy x then x else Num 0)"

text \<open>\<open>x > 0\<close>: every comparison with \<open>NaN\<close> is false.\<close>

definition gtZero :: "number \<Rightarrow> bool" where
  "gtZero x = (case x of NaN \<Rightarrow> False | Num r \<Rightarrow> 0 < r)"

section \<open>Data persistence functions\<close>

text \<open>
  \<open>saveDailyData(date, data)\<close> puts \<open>{ date, ...data }\<close> into \<open>dailyData\<close>: the properties of
  \<open>data\<close> are spread after \<open>date\<close>, so a \<open>date\<close> property of \<open>data\<close> wins. The store takes
  the key from the \<open>date\<close> property of the value.
\<close>

definition saveDailyData :: "string \<Rightarrow> obj \<Rightarrow> idb \<Rightarrow> (error + unit) \<times> idb" where
  "saveDailyData date data db =
     (let v = [''date'' \<mapsto> JStr date] ++ data in
      case v ''date'' of
        None \<Rightarrow> (Inl DataError, db)
      | Some k \<Rightarrow>
          if \<not> validKey k then (Inl DataError, db)
          else
            let db1 = db\<lparr>issued := issued db @ [Put ''dailyData'' v]\<rparr> in
            if aborts db (length (issued db))
            then (Inl (Reject ''Error saving daily data''), db1)
            else (Inr (), db1\<lparr>dailyData := (dailyData db)(k \<mapsto> v)\<rparr>))"

text \<open>\<open>getDailyData(date)\<close> resolves with the stored record, or \<open>undefined\<close> (\<open>None\<close>).\<close>

definition getDailyData :: "string \<Rightarrow> idb \<Rightarrow> (error + obj option) \<times> idb" where
  "getDailyData date db =
     (let db1 = db\<lparr>issued := issued db @ [Get ''dailyData'' (JStr date)]\<rparr> in
      if aborts db (length (issued db))
      then (Inl (Reject ''Error getting daily data''), db1)
      else (Inr (dailyData db (JStr date)), db1))"

definition saveWeight :: "string \<Rightarrow> number \<Rightarrow> idb \<Rightarrow> (error + unit) \<times> idb" where
  "saveWeight date weight db =
     (let v = [''date'' \<mapsto> JStr date, ''weight'' \<mapsto> JNum weight];
          db1 = db\<lparr>issued := issued db @ [Put ''weights'' v]\<rparr> in
      if aborts db (length (issued db))
      then (Inl (Reject ''Error saving weight''), db1)
      else (Inr (), db1\<lparr>weights := (weights db)(JStr date \<mapsto> v)\<rparr>))"

section \<open>Click handlers\<close>

text \<open>
  A handler reads \<open>today\<close> from the clock and the parsed input fields from the page; both are
  arguments here. It ends with one \<open>alert\<close>: a fixed text, or a prefix followed by the error.
  After a successful save the handler refreshes the display, which issues one more read
  request and changes only the page.
\<close>

datatype alert = Alert string | AlertError string error

definition renderDashboardData :: "string \<Rightarrow> idb \<Rightarrow> idb" where
  "renderDashboardData date db = snd (getDailyData date db)"

definition renderWeightHistory :: "idb \<Rightarrow> idb" where
  "renderWeightHistory db = db\<lparr>issued := issued db @ [GetAll ''weights'']\<rparr>"

definition saveDailyDataBtn_click ::
  "string \<Rightarrow> number \<Rightarrow> number \<Rightarrow> number \<Rightarrow> number \<Rightarrow> number \<Rightarrow> number \<Rightarrow> idb \<Rightarrow> alert \<times> idb" where
  "saveDailyDataBtn_click today stepsInput waterInput calorieInput proteinInput carbInput fatInput db =
     (let steps = orZero stepsInput; water = orZero waterInput;
          calories = orZero calorieInput; protein = orZero proteinInput;
          carbs = orZero carbInput; fat = orZero fatInput in
      case saveDailyData today
             [''steps'' \<mapsto> JNum steps, ''water'' \<mapsto> JNum water, ''calories'' \<mapsto> JNum calories,
              ''protein'' \<mapsto> JNum protein, ''carbs'' \<mapsto> JNum carbs, ''fat'' \<mapsto> JNum fat] db of
        (Inr u, db1) \<Rightarrow> (Alert ''Daily data saved!'', renderDashboardData today db1)
      | (Inl e, db1) \<Rightarrow> (AlertError ''Error saving daily data: '' e, db1))"

definition saveWeightBtn_click :: "string \<Rightarrow> number \<Rightarrow> idb \<Rightarrow> alert \<times> idb" where
  "saveWeightBtn_click today weight db =
     (if gtZero weight then
        (case saveWeight today weight db of
           (Inr u, db1) \<Rightarrow> (Alert ''Weight saved!'', renderWeightHistory db1)
         | (Inl e, db1) \<Rightarrow> (AlertError ''Error saving weight: '' e, db1))
      else (Alert ''Please enter a valid weight.'', db))"

definition saveMacrosBtn_click ::
  "string \<Rightarrow> number \<Rightarrow> number \<Rightarrow> number \<Rightarrow> number \<Rightarrow> idb \<Rightarrow> alert \<times> idb" where
  "saveMacrosBtn_click today calorieInput proteinInput carbInput fatInput db =
     (let calories = orZero calorieInput; protein = orZero proteinInput;
          carbs = orZero carbInput; fat = orZero fatInput in
      if truthy calories \<or> truthy protein \<or> truthy carbs \<or> truthy fat then
        (case getDailyData today db of
           (Inl e, db1) \<Rightarrow> (AlertError ''Error saving macros: '' e, db1)
         | (Inr r, db1) \<Rightarrow>
             let existingData = (case r of None \<Rightarrow> Map.empty | Some ob \<Rightarrow> ob) in
             (case saveDailyData today
                     (existingData(''calories'' \<mapsto> JNum calories, ''protein'' \<mapsto> JNum protein,
                                   ''carbs'' \<mapsto> JNum carbs, ''fat'' \<mapsto> JNum fat)) db1 of
                (Inl e, db2) \<Rightarrow> (AlertError ''Error saving macros: '' e, db2)
              | (Inr u, db2) \<Rightarrow> (Alert ''Macros saved!'', renderDashboardData today db2)))
      else (Alert ''Please enter at least one macro value.'', db))"

section \<open>Program calendar\<close>

text \<open>
  A \<open>Date\<close> is its time value: integer milliseconds since the epoch. \<open>setHours(0, 0, 0, 0)\<close>
  depends on the time zone of the host and is the parameter \<open>setHours0\<close>; \<open>now\<close> is the value
  of \<open>new Date()\<close> and \<open>startDate\<close> the value of \<open>new Date(startDateStr)\<close>.
\<close>

record coordinate =
  week :: int
  day :: int
  message :: "string option"

definition getWeekAndDay :: "(int \<Rightarrow> int) \<Rightarrow> int \<Rightarrow> int \<Rightarrow> coordinate" where
  "getWeekAndDay setHours0 now startDate =
     (let today = setHours0 now; start = setHours0 startDate in
      if today < start
      then \<lparr>week = 0, day = 0, message = Some ''Program hasn't started yet!''\<rparr>
      else
        let diffTime = \<bar>today - start\<bar>;
            diffDays = \<lceil>real_of_int diffTime / (1000 * 60 * 60 * 24)\<rceil> in
        \<lparr>week = \<lfloor>real_of_int diffDays / 7\<rfloor> + 1, day = diffDays mod 7 + 1, message = None\<rparr>)"

text \<open>The time value of \<open>new Date('2025-07-07')\<close>: midnight UTC of 7 July 2025.\<close>

definition PROGRAM_START_DATE :: int where
  "PROGRAM_START_DATE = 1751846400000"

text \<open>
  \<open>WORKOUT_PLAN\<close> maps \<open>Week w\<close> to an object that maps \<open>Day d\<close> to a workout; the table is
  static data and a parameter here, indexed by the two numbers.
\<close>

record exercise =
  name :: string
  sets :: jsval
  reps :: jsval
  exercise_notes :: "string option"

record workout =
  type :: string
  description :: string
  exercises :: "exercise list option"

type_synonym workout_plan = "int \<rightharpoonup> (int \<rightharpoonup> workout)"

text \<open>What \<open>renderTodayWorkout\<close> writes into \<open>todayWorkoutSummary\<close>, one constructor per branch.\<close>

datatype summary =
    CompletedOrNotStarted int int
  | TodaysWorkout int int workout
  | NoSpecificWorkout int int
  | NoWorkoutData int

definition renderTodayWorkout :: "(int \<Rightarrow> int) \<Rightarrow> int \<Rightarrow> workout_plan \<Rightarrow> summary" where
  "renderTodayWorkout setHours0 now WORKOUT_PLAN =
     (let c = getWeekAndDay setHours0 now PROGRAM_START_DATE in
      if week c > 26 \<or> week c = 0 then CompletedOrNotStarted (week c) (day c)
      else
        case WORKOUT_PLAN (week c) of
          Some currentWeekPlan \<Rightarrow>
            (case currentWeekPlan (day c) of
               Some workoutForToday \<Rightarrow> TodaysWorkout (week c) (day c) workoutForToday
             | None \<Rightarrow> NoSpecificWorkout (week c) (day c))
        | None \<Rightarrow> NoWorkoutData (week c))"

section \<open>Derived notions used in the statements\<close>

text \<open>The field \<open>fld\<close> of the record stored in \<open>dailyData\<close> under \<open>date\<close>, if any.\<close>

definition storedField :: "idb \<Rightarrow> string \<Rightarrow> string \<Rightarrow> jsval option" where
  "storedField db date fld = (case dailyData db (JStr date) of None \<Rightarrow> None | Some r \<Rightarrow> r fld)"

text \<open>\<open>await getDailyData(date) || {}\<close> on a backend that answers.\<close>

definition existingData :: "idb \<Rightarrow> string \<Rightarrow> obj" where
  "existingData db date = (case dailyData db (JStr date) of None \<Rightarrow> Map.empty | Some ob \<Rightarrow> ob)"

text \<open>The key the store extracts from a value (an invalid key when there is no \<open>date\<close>).\<close>

definition keyOf :: "obj \<Rightarrow> jsval" where
  "keyOf v = (case v ''date'' of None \<Rightarrow> JNum NaN | Some k \<Rightarrow> k)"

text \<open>The object literal the daily save passes to \<open>saveDailyData\<close>.\<close>

definition dailyFields :: "number \<Rightarrow> number \<Rightarrow> number \<Rightarrow> number \<Rightarrow> number \<Rightarrow> number \<Rightarrow> obj" where
  "dailyFields s w c p cb f =
     [''steps'' \<mapsto> JNum (orZero s), ''water'' \<mapsto> JNum (orZero w), ''calories'' \<mapsto> JNum (orZero c),
      ''protein'' \<mapsto> JNum (orZero p), ''carbs'' \<mapsto> JNum (orZero cb), ''fat'' \<mapsto> JNum (orZero f)]"

text \<open>The object literal \<open>{ ...existingData, calories, protein, carbs, fat }\<close> of the macros save.\<close>

definition withMacros :: "obj \<Rightarrow> number \<Rightarrow> number \<Rightarrow> number \<Rightarrow> number \<Rightarrow> obj" where
  "withMacros e c p cb f =
     e(''calories'' \<mapsto> JNum (orZero c), ''protein'' \<mapsto> JNum (orZero p),
       ''carbs'' \<mapsto> JNum (orZero cb), ''fat'' \<mapsto> JNum (orZero f))"

text \<open>The guard \<open>calories || protein || carbs || fat\<close> of the macros save.\<close>

definition anyMacro :: "number \<Rightarrow> number \<Rightarrow> number \<Rightarrow> number \<Rightarrow> bool" where
  "anyMacro c p cb f =
     (truthy (orZero c) \<or> truthy (orZero p) \<or> truthy (orZero cb) \<or> truthy (orZero f))"

text \<open>
  What a store with key path \<open>date\<close> guarantees for the record under \<open>date\<close>: its own
  \<open>date\<close> property is the key it is stored under.
\<close>

definition keyedAt :: "idb \<Rightarrow> string \<Rightarrow> bool" where
  "keyedAt db date =
     (case dailyData db (JStr date) of None \<Rightarrow> True | Some r \<Rightarrow> r ''date'' = Some (JStr date))"

text \<open>The names of the six metric fields of a daily record (the key \<open>date\<close> is not one).\<close>

definition metricFields :: "string set" where
  "metricFields = {''steps'', ''water'', ''calories'', ''protein'', ''carbs'', ''fat''}"

section \<open>Reference inputs\<close>

text \<open>An empty database on a backend that never aborts a request.\<close>

definition emptyDB :: idb where
  "emptyDB = \<lparr>dailyData = Map.empty, weights = Map.empty, issued = [], aborts = (\<lambda>n. False)\<rparr>"

text \<open>The same database on a backend that aborts the next request.\<close>

definition failingDB :: idb where
  "failingDB = \<lparr>dailyData = Map.empty, weights = Map.empty, issued = [], aborts = (\<lambda>n. n = 0)\<rparr>"

text \<open>A database holding one daily record and one weight sample for 1 January 2025.\<close>

definition sampleDB :: idb where
  "sampleDB =
     \<lparr>dailyData = [JStr ''2025-01-01'' \<mapsto>
          [''date'' \<mapsto> JStr ''2025-01-01'', ''steps'' \<mapsto> JNum (Num 10), ''water'' \<mapsto> JNum (Num 2)]],
      weights = [JStr ''2025-01-01'' \<mapsto>
          [''date'' \<mapsto> JStr ''2025-01-01'', ''weight'' \<mapsto> JNum (Num 80)]],
      issued = [], aborts = (\<lambda>n. False)\<rparr>"

text \<open>\<open>setHours(0, 0, 0, 0)\<close> on a host whose time zone is UTC.\<close>

definition utcMidnight :: "int \<Rightarrow> int" where
  "utcMidnight t = t - t mod 86400000"

text \<open>A plan that has an entry beyond the 26 weeks of the program.\<close>

definition latePlan :: workout_plan where
  "latePlan = [27 \<mapsto> [1 \<mapsto> \<lparr>type = ''Bonus'', description = ''Extra session'', exercises = None\<rparr>]]"

text \<open>A plan that has an entry for the first day of the program.\<close>

definition firstDayPlan :: workout_plan where
  "firstDayPlan =
     [1 \<mapsto> [1 \<mapsto> \<lparr>type = ''Full Body Strength A'',
                    description = ''Focus on compound movements to build a solid foundation.'',
                    exercises = None\<rparr>]]"

text \<open>
  A time zone is given by its offset from UTC, in milliseconds, at each instant. The local
  calendar day of an instant is counted in days since 1 January 1970; a date-only string
  such as \<open>'2025-07-07'\<close> names the day \<open>PROGRAM_START_DATE div 86400000\<close>.
\<close>

definition localDay :: "(int \<Rightarrow> int) \<Rightarrow> int \<Rightarrow> int" where
  "localDay offset t = (t + offset t) div 86400000"

text \<open>
  \<open>setHours(0, 0, 0, 0)\<close> on a host in that zone: the instant at which the local calendar
  day of \<open>t\<close> began (the offset in force at that midnight is read at the first estimate of
  it, which is exact when no clock change falls between the two).
\<close>

definition zoneMidnight :: "(int \<Rightarrow> int) \<Rightarrow> int \<Rightarrow> int" where
  "zoneMidnight offset t =
     (let wall = t + offset t;
          m = wall - wall mod 86400000
      in m - offset (m - offset t))"

text \<open>Los Angeles in July: seven hours behind UTC.\<close>

definition pacificDaylight :: "int \<Rightarrow> int" where
  "pacificDaylight t = - (7 * 3600000)"

text \<open>
  Berlin in 2025 from April on: two hours ahead of UTC until the clocks go back at
  01:00 UTC on 26 October, one hour ahead afterwards.
\<close>

definition berlin :: "int \<Rightarrow> int" where
  "berlin t = (if t < 1761440400000 then 2 * 3600000 else 3600000)"

section \<open>Auxiliary lemmas\<close>

subsection \<open>The store and the handlers\<close>

lemma saveDailyData_ok:
  "fst (saveDailyData d f db) = Inr () \<Longrightarrow>
   dailyData (snd (saveDailyData d f db)) =
     (dailyData db)(keyOf ([''date'' \<mapsto> JStr d] ++ f) \<mapsto> [''date'' \<mapsto> JStr d] ++ f)"
  by (simp add: saveDailyData_def Let_def keyOf_def split: option.splits if_splits)

lemma saveDailyData_failed:
  "fst (saveDailyData d f db) \<noteq> Inr () \<Longrightarrow> dailyData (snd (saveDailyData d f db)) = dailyData db"
  by (simp add: saveDailyData_def Let_def split: option.splits if_splits)

lemma saveDailyData_rest:
  "weights (snd (saveDailyData d f db)) = weights db \<and>
   aborts (snd (saveDailyData d f db)) = aborts db"
  by (simp add: saveDailyData_def Let_def split: option.splits if_splits)

lemma saveDailyData_result:
  "fst (saveDailyData d f db) = Inr () \<or> fst (saveDailyData d f db) = Inl DataError \<or>
   fst (saveDailyData d f db) = Inl (Reject ''Error saving daily data'')"
  by (simp add: saveDailyData_def Let_def split: option.splits if_splits)

lemma saveDailyData_DataError:
  "fst (saveDailyData d f db) = Inl DataError \<Longrightarrow> fst (saveDailyData d f db') = Inl DataError"
  by (auto simp: saveDailyData_def Let_def split: option.splits if_splits)

lemma getDailyData_rest:
  "dailyData (snd (getDailyData d db)) = dailyData db \<and>
   weights (snd (getDailyData d db)) = weights db \<and>
   aborts (snd (getDailyData d db)) = aborts db"
  by (simp add: getDailyData_def Let_def)

lemma saveDailyData_twice:
  assumes "fst (saveDailyData d f db) \<noteq> Inl (Reject ''Error saving daily data'')"
  shows "dailyData (snd (saveDailyData d f (snd (saveDailyData d f db)))) =
         dailyData (snd (saveDailyData d f db))"
proof (cases "fst (saveDailyData d f db) = Inr ()")
  case True
  show ?thesis
  proof (cases "fst (saveDailyData d f (snd (saveDailyData d f db))) = Inr ()")
    case t2: True
    show ?thesis by (simp add: saveDailyData_ok[OF t2] saveDailyData_ok[OF True])
  next
    case False
    then show ?thesis by (rule saveDailyData_failed)
  qed
next
  case False
  with assms saveDailyData_result[of d f db] have "fst (saveDailyData d f db) = Inl DataError"
    by blast
  then have "fst (saveDailyData d f (snd (saveDailyData d f db))) = Inl DataError"
    by (rule saveDailyData_DataError)
  then show ?thesis by (simp add: saveDailyData_failed)
qed

lemma saveDailyData_again:
  assumes "dailyData db' = (dailyData db)(keyOf ([''date'' \<mapsto> JStr d] ++ f) \<mapsto> [''date'' \<mapsto> JStr d] ++ f)"
  shows "dailyData (snd (saveDailyData d f db')) = dailyData db'"
proof (cases "fst (saveDailyData d f db') = Inr ()")
  case True
  show ?thesis by (simp add: saveDailyData_ok[OF True] assms)
next
  case False
  then show ?thesis by (rule saveDailyData_failed)
qed

lemma dashboard_click_unfold:
  "saveDailyDataBtn_click today s w c p cb f db =
     (case saveDailyData today (dailyFields s w c p cb f) db of
        (Inr u, db1) \<Rightarrow> (Alert ''Daily data saved!'', renderDashboardData today db1)
      | (Inl e, db1) \<Rightarrow> (AlertError ''Error saving daily data: '' e, db1))"
  by (simp add: saveDailyDataBtn_click_def dailyFields_def Let_def)

lemma renderDashboardData_rest:
  "dailyData (renderDashboardData d db) = dailyData db \<and>
   weights (renderDashboardData d db) = weights db \<and>
   aborts (renderDashboardData d db) = aborts db"
  by (simp add: renderDashboardData_def getDailyData_rest)

lemma dashboard_click_dailyData:
  "dailyData (snd (saveDailyDataBtn_click today s w c p cb f db)) =
   dailyData (snd (saveDailyData today (dailyFields s w c p cb f) db))"
  by (simp add: dashboard_click_unfold renderDashboardData_rest split: prod.splits sum.splits)

lemma dashboard_click_alert:
  "fst (saveDailyDataBtn_click today s w c p cb f db) =
     (case fst (saveDailyData today (dailyFields s w c p cb f) db) of
        Inr u \<Rightarrow> Alert ''Daily data saved!''
      | Inl e \<Rightarrow> AlertError ''Error saving daily data: '' e)"
  by (simp add: dashboard_click_unfold split: prod.splits sum.splits)

lemma dailyFields_key: "keyOf ([''date'' \<mapsto> JStr d] ++ dailyFields s w c p cb f) = JStr d"
  by (simp add: keyOf_def dailyFields_def map_add_def)

lemma dashboard_click_ok:
  assumes "fst (saveDailyDataBtn_click today s w c p cb f db) = Alert ''Daily data saved!''"
  shows "fst (saveDailyData today (dailyFields s w c p cb f) db) = Inr ()"
  using assms by (simp add: dashboard_click_alert split: sum.splits)

lemma dashboard_twice:
  assumes "fst (saveDailyDataBtn_click today s w c p cb f db) = Alert ''Daily data saved!''"
  shows "dailyData (snd (saveDailyDataBtn_click today s w c p cb f
                      (snd (saveDailyDataBtn_click today s w c p cb f db)))) =
         dailyData (snd (saveDailyDataBtn_click today s w c p cb f db))"
proof -
  let ?db1 = "snd (saveDailyDataBtn_click today s w c p cb f db)"
  have "dailyData ?db1 =
          (dailyData db)(keyOf ([''date'' \<mapsto> JStr today] ++ dailyFields s w c p cb f) \<mapsto>
             [''date'' \<mapsto> JStr today] ++ dailyFields s w c p cb f)"
    by (simp only: dashboard_click_dailyData saveDailyData_ok[OF dashboard_click_ok[OF assms]])
  then have "dailyData (snd (saveDailyData today (dailyFields s w c p cb f) ?db1)) = dailyData ?db1"
    by (rule saveDailyData_again)
  then show ?thesis by (simp only: dashboard_click_dailyData[of today s w c p cb f ?db1])
qed

lemma macros_click_unfold:
  "saveMacrosBtn_click today c p cb f db =
     (if anyMacro c p cb f then
        (case getDailyData today db of
           (Inl e, db1) \<Rightarrow> (AlertError ''Error saving macros: '' e, db1)
         | (Inr r, db1) \<Rightarrow>
             (case saveDailyData today (withMacros (existingData db today) c p cb f) db1 of
                (Inl e, db2) \<Rightarrow> (AlertError ''Error saving macros: '' e, db2)
              | (Inr u, db2) \<Rightarrow> (Alert ''Macros saved!'', renderDashboardData today db2)))
      else (Alert ''Please enter at least one macro value.'', db))"
  by (simp add: saveMacrosBtn_click_def anyMacro_def withMacros_def existingData_def
        getDailyData_def Let_def)

lemma macros_click_saved:
  assumes "fst (saveMacrosBtn_click today c p cb f db) = Alert ''Macros saved!''"
  shows "dailyData (snd (saveMacrosBtn_click today c p cb f db)) =
           (dailyData db)
             (keyOf ([''date'' \<mapsto> JStr today] ++ withMacros (existingData db today) c p cb f) \<mapsto>
              [''date'' \<mapsto> JStr today] ++ withMacros (existingData db today) c p cb f)"
proof -
  let ?db1 = "snd (getDailyData today db)"
  let ?f = "withMacros (existingData db today) c p cb f"
  from assms have ok: "fst (saveDailyData today ?f ?db1) = Inr ()"
    by (auto simp: macros_click_unfold split: if_splits prod.splits sum.splits)
  from assms have "dailyData (snd (saveMacrosBtn_click today c p cb f db)) =
      dailyData (snd (saveDailyData today ?f ?db1))"
    by (auto simp: macros_click_unfold renderDashboardData_rest split: if_splits prod.splits sum.splits)
  then show ?thesis
    by (simp only: saveDailyData_ok[OF ok] getDailyData_rest)
qed

lemma macros_click_not_saved:
  assumes "fst (saveMacrosBtn_click today c p cb f db) \<noteq> Alert ''Macros saved!''"
  shows "dailyData (snd (saveMacrosBtn_click today c p cb f db)) = dailyData db"
proof (cases "anyMacro c p cb f")
  case False
  then show ?thesis by (simp add: macros_click_unfold)
next
  case True
  show ?thesis
  proof (cases "fst (getDailyData today db)")
    case (Inl e)
    then show ?thesis
      using True getDailyData_rest[of today db]
      by (auto simp: macros_click_unfold split: prod.splits)
  next
    case (Inr r)
    let ?db1 = "snd (getDailyData today db)"
    let ?f = "withMacros (existingData db today) c p cb f"
    from assms True Inr have "fst (saveDailyData today ?f ?db1) \<noteq> Inr ()"
      by (auto simp: macros_click_unfold split: prod.splits sum.splits)
    then have "dailyData (snd (saveDailyData today ?f ?db1)) = dailyData ?db1"
      by (rule saveDailyData_failed)
    moreover have "dailyData (snd (saveMacrosBtn_click today c p cb f db)) =
         dailyData (snd (saveDailyData today ?f ?db1))"
      using True Inr
      by (auto simp: macros_click_unfold renderDashboardData_rest split: prod.splits sum.splits)
    ultimately show ?thesis by (simp add: getDailyData_rest)
  qed
qed

lemma existingData_Some: "dailyData db (JStr d) = Some v \<Longrightarrow> existingData db d = v"
  by (simp add: existingData_def)

lemma existingData_cong: "dailyData db' (JStr d) = dailyData db (JStr d) \<Longrightarrow> existingData db' d = existingData db d"
  by (simp add: existingData_def)

lemma withMacros_again:
  assumes "dailyData db' = (dailyData db)
             (keyOf ([''date'' \<mapsto> JStr today] ++ withMacros (existingData db today) c p cb f) \<mapsto>
              [''date'' \<mapsto> JStr today] ++ withMacros (existingData db today) c p cb f)"
  shows "[''date'' \<mapsto> JStr today] ++ withMacros (existingData db' today) c p cb f =
         [''date'' \<mapsto> JStr today] ++ withMacros (existingData db today) c p cb f"
proof (cases "keyOf ([''date'' \<mapsto> JStr today] ++ withMacros (existingData db today) c p cb f) = JStr today")
  case True
  have "existingData db' today = [''date'' \<mapsto> JStr today] ++ withMacros (existingData db today) c p cb f"
    by (rule existingData_Some) (simp add: assms True)
  then show ?thesis
    by (auto simp: withMacros_def map_add_def fun_eq_iff split: option.splits)
next
  case False
  then have "existingData db' today = existingData db today"
    by (intro existingData_cong) (simp add: assms)
  then show ?thesis by simp
qed

lemma macros_twice:
  assumes "\<forall>e. fst (saveMacrosBtn_click today c p cb f db) \<noteq> AlertError ''Error saving macros: '' e"
  shows "dailyData (snd (saveMacrosBtn_click today c p cb f
                      (snd (saveMacrosBtn_click today c p cb f db)))) =
         dailyData (snd (saveMacrosBtn_click today c p cb f db))"
proof (cases "fst (saveMacrosBtn_click today c p cb f db) = Alert ''Macros saved!''")
  case True
  let ?db1 = "snd (saveMacrosBtn_click today c p cb f db)"
  note d1 = macros_click_saved[OF True]
  show ?thesis
  proof (cases "fst (saveMacrosBtn_click today c p cb f ?db1) = Alert ''Macros saved!''")
    case t2: True
    show ?thesis
      by (simp add: macros_click_saved[OF t2] withMacros_again[OF d1] d1)
  next
    case False
    then show ?thesis by (rule macros_click_not_saved)
  qed
next
  case False
  with assms have "\<not> anyMacro c p cb f"
    by (auto simp: macros_click_unfold split: prod.splits sum.splits if_splits)
  then show ?thesis by (simp add: macros_click_unfold)
qed

lemma metric_key:
  assumes "dom f \<subseteq> metricFields"
  shows "keyOf ([''date'' \<mapsto> JStr d] ++ f) = JStr d"
proof -
  have "''date'' \<notin> metricFields" by (simp add: metricFields_def)
  with assms have "f ''date'' = None" by blast
  then show ?thesis by (simp add: keyOf_def map_add_def)
qed

lemma saveDailyData_frame:
  assumes "keyOf ([''date'' \<mapsto> JStr d] ++ f) = JStr d" "k \<noteq> JStr d"
  shows "dailyData (snd (saveDailyData d f db)) k = dailyData db k"
proof (cases "fst (saveDailyData d f db) = Inr ()")
  case True
  show ?thesis using assms by (simp add: saveDailyData_ok[OF True])
next
  case False
  then show ?thesis by (simp add: saveDailyData_failed)
qed

lemma existing_key:
  assumes "keyedAt db today"
  shows "keyOf ([''date'' \<mapsto> JStr today] ++ withMacros (existingData db today) c p cb f) = JStr today"
proof (cases "dailyData db (JStr today)")
  case None
  then show ?thesis by (simp add: existingData_def keyOf_def withMacros_def map_add_def)
next
  case (Some r)
  with assms have "r ''date'' = Some (JStr today)" by (simp add: keyedAt_def)
  with Some show ?thesis by (simp add: existingData_def keyOf_def withMacros_def map_add_def)
qed

lemma macros_frame:
  assumes "keyedAt db today" "k \<noteq> JStr today"
  shows "dailyData (snd (saveMacrosBtn_click today c p cb f db)) k = dailyData db k"
proof (cases "fst (saveMacrosBtn_click today c p cb f db) = Alert ''Macros saved!''")
  case True
  show ?thesis using assms(2) by (simp add: macros_click_saved[OF True] existing_key[OF assms(1)])
next
  case False
  then show ?thesis by (simp add: macros_click_not_saved)
qed

lemma macros_weights: "weights (snd (saveMacrosBtn_click today c p cb f db)) = weights db"
  by (simp add: macros_click_unfold split_beta renderDashboardData_rest saveDailyData_rest
        getDailyData_rest split: sum.splits)

lemma dashboard_weights: "weights (snd (saveDailyDataBtn_click today s w c p cb f db)) = weights db"
  by (simp add: dashboard_click_unfold split_beta renderDashboardData_rest saveDailyData_rest
        split: sum.splits)

text \<open>
  The property \<open>keyedAt\<close> holds of the empty database and is kept by every handler, so it
  holds of every state the application reaches.
\<close>

lemma keyedAt_emptyDB: "keyedAt emptyDB d"
  by (simp add: keyedAt_def emptyDB_def)

lemma keyOf_JStr: "keyOf v = JStr d \<Longrightarrow> v ''date'' = Some (JStr d)"
  by (simp add: keyOf_def split: option.splits)

lemma keyedAt_update:
  assumes "keyedAt db d" and "dailyData db' = (dailyData db)(keyOf v \<mapsto> v)"
  shows "keyedAt db' d"
proof (cases "keyOf v = JStr d")
  case True
  then show ?thesis by (simp add: keyedAt_def assms(2) keyOf_JStr)
next
  case False
  then have "dailyData db' (JStr d) = dailyData db (JStr d)"
    by (auto simp: assms(2))
  with assms(1) show ?thesis by (simp add: keyedAt_def)
qed

lemma keyedAt_same:
  "keyedAt db d \<Longrightarrow> dailyData db' = dailyData db \<Longrightarrow> keyedAt db' d"
  by (simp add: keyedAt_def)

lemma keyedAt_saveDailyData:
  assumes "keyedAt db d'"
  shows "keyedAt (snd (saveDailyData d f db)) d'"
proof (cases "fst (saveDailyData d f db) = Inr ()")
  case True
  from assms saveDailyData_ok[OF True] show ?thesis by (rule keyedAt_update)
next
  case False
  from assms saveDailyData_failed[OF False] show ?thesis by (rule keyedAt_same)
qed

lemma keyedAt_dashboard_click:
  assumes "keyedAt db d'"
  shows "keyedAt (snd (saveDailyDataBtn_click d s w c p cb f db)) d'"
  using keyedAt_saveDailyData[OF assms, of d "dailyFields s w c p cb f"]
  by (simp add: keyedAt_def dashboard_click_dailyData)

lemma keyedAt_macros_click:
  assumes "keyedAt db d'"
  shows "keyedAt (snd (saveMacrosBtn_click d c p cb f db)) d'"
proof (cases "fst (saveMacrosBtn_click d c p cb f db) = Alert ''Macros saved!''")
  case True
  from assms macros_click_saved[OF True] show ?thesis by (rule keyedAt_update)
next
  case False
  from assms macros_click_not_saved[OF False] show ?thesis by (rule keyedAt_same)
qed

lemma keyedAt_weight_click:
  assumes "keyedAt db d'"
  shows "keyedAt (snd (saveWeightBtn_click d weight db)) d'"
  using assms
  by (simp add: keyedAt_def saveWeightBtn_click_def saveWeight_def renderWeightHistory_def Let_def)

subsection \<open>The calendar\<close>

lemma ceil_days: "\<lceil>real_of_int t / (1000 * 60 * 60 * 24)\<rceil> = - ((- t) div 86400000)"
proof -
  have "real_of_int t / (1000 * 60 * 60 * 24) = real_of_int t / real_of_int 86400000" by simp
  then show ?thesis by (simp only: ceiling_divide_eq_div)
qed

lemma floor_weeks: "\<lfloor>real_of_int n / 7\<rfloor> = n div 7"
proof -
  have "real_of_int n / 7 = real_of_int n / real_of_int 7" by simp
  then show ?thesis by (simp only: floor_divide_of_int_eq)
qed

lemma getWeekAndDay_started:
  assumes "setHours0 startDate \<le> setHours0 now"
  shows "getWeekAndDay setHours0 now startDate =
     \<lparr>week = (- ((setHours0 startDate - setHours0 now) div 86400000)) div 7 + 1,
      day = (- ((setHours0 startDate - setHours0 now) div 86400000)) mod 7 + 1, message = None\<rparr>"
proof -
  have pos: "\<bar>setHours0 now - setHours0 startDate\<bar> = setHours0 now - setHours0 startDate"
    using assms by simp
  have nlt: "\<not> setHours0 now < setHours0 startDate"
    using assms by simp
  show ?thesis
    unfolding getWeekAndDay_def Let_def
    by (simp only: nlt if_False pos ceil_days floor_weeks minus_diff_eq)
qed

lemma week_gt_26:
  "(26 < week (getWeekAndDay setHours0 now startDate)) =
   (181 * 86400000 < setHours0 now - setHours0 startDate)"
proof (cases "setHours0 now < setHours0 startDate")
  case True
  then show ?thesis by (simp add: getWeekAndDay_def)
next
  case False
  then have le: "setHours0 startDate \<le> setHours0 now" by simp
  show ?thesis
    by (simp add: getWeekAndDay_started[of setHours0 startDate now, OF le]) linarith
qed

lemma coordinate_range:
  assumes "setHours0 startDate \<le> setHours0 now"
  shows "1 \<le> week (getWeekAndDay setHours0 now startDate) \<and>
         1 \<le> day (getWeekAndDay setHours0 now startDate) \<and>
         day (getWeekAndDay setHours0 now startDate) \<le> 7"
proof -
  have "(setHours0 startDate - setHours0 now) div 86400000 \<le> 0"
    using assms by (intro div_nonpos_pos_le0) simp_all
  then have "0 \<le> - ((setHours0 startDate - setHours0 now) div 86400000)"
    by simp
  then have "0 \<le> (- ((setHours0 startDate - setHours0 now) div 86400000)) div 7"
    by (simp add: pos_imp_zdiv_nonneg_iff)
  then show ?thesis
    by (simp add: getWeekAndDay_started[of setHours0 startDate now, OF assms])
qed

text \<open>
  In terms of the two time values after \<open>setHours\<close>, whatever the host's time zone makes
  of them: from the start on the coordinate follows the formula of the code, and before
  the start it is \<open>(0, 0)\<close> and the plan is not looked up.
\<close>

lemma week_and_day_on_normalised_values:
  assumes "setHours0 startDate \<le> setHours0 now"
  shows "week (getWeekAndDay setHours0 now startDate) =
           \<lfloor>real_of_int \<lceil>real_of_int \<bar>setHours0 now - setHours0 startDate\<bar> / 86400000\<rceil> / 7\<rfloor> + 1 \<and>
         day (getWeekAndDay setHours0 now startDate) =
           \<lceil>real_of_int \<bar>setHours0 now - setHours0 startDate\<bar> / 86400000\<rceil> mod 7 + 1 \<and>
         (\<forall>n. setHours0 now = setHours0 startDate + n * 86400000 \<longrightarrow>
            week (getWeekAndDay setHours0 now startDate) = n div 7 + 1 \<and>
            day (getWeekAndDay setHours0 now startDate) = n mod 7 + 1) \<and>
         (setHours0 now = setHours0 startDate \<longrightarrow>
            getWeekAndDay setHours0 now startDate = \<lparr>week = 1, day = 1, message = None\<rparr>) \<and>
         (setHours0 now = setHours0 startDate + 7 * 86400000 \<longrightarrow>
            getWeekAndDay setHours0 now startDate = \<lparr>week = 2, day = 1, message = None\<rparr>)"
proof (intro conjI allI impI)
  show "week (getWeekAndDay setHours0 now startDate) =
           \<lfloor>real_of_int \<lceil>real_of_int \<bar>setHours0 now - setHours0 startDate\<bar> / 86400000\<rceil> / 7\<rfloor> + 1"
    using assms by (simp add: getWeekAndDay_def Let_def)
  show "day (getWeekAndDay setHours0 now startDate) =
           \<lceil>real_of_int \<bar>setHours0 now - setHours0 startDate\<bar> / 86400000\<rceil> mod 7 + 1"
    using assms by (simp add: getWeekAndDay_def Let_def)
next
  fix n assume "setHours0 now = setHours0 startDate + n * 86400000"
  then have d: "- ((setHours0 startDate - setHours0 now) div 86400000) = n" by simp
  show "week (getWeekAndDay setHours0 now startDate) = n div 7 + 1"
    by (simp only: getWeekAndDay_started[of setHours0 startDate now, OF assms] d coordinate.simps)
  show "day (getWeekAndDay setHours0 now startDate) = n mod 7 + 1"
    by (simp only: getWeekAndDay_started[of setHours0 startDate now, OF assms] d coordinate.simps)
next
  assume "setHours0 now = setHours0 startDate"
  then show "getWeekAndDay setHours0 now startDate = \<lparr>week = 1, day = 1, message = None\<rparr>"
    by (simp add: getWeekAndDay_def)
next
  assume "setHours0 now = setHours0 startDate + 7 * 86400000"
  then have d: "- ((setHours0 startDate - setHours0 now) div 86400000) = 7" by simp
  show "getWeekAndDay setHours0 now startDate = \<lparr>week = 2, day = 1, message = None\<rparr>"
    by (simp add: getWeekAndDay_started[of setHours0 startDate now, OF assms] d)
qed

lemma not_started_on_normalised_values:
  assumes "setHours0 now < setHours0 startDate"
  shows "getWeekAndDay setHours0 now startDate =
           \<lparr>week = 0, day = 0, message = Some ''Program hasn't started yet!''\<rparr> \<and>
         (startDate = PROGRAM_START_DATE \<longrightarrow>
            renderTodayWorkout setHours0 now WORKOUT_PLAN = CompletedOrNotStarted 0 0)"
proof (intro conjI impI)
  show "getWeekAndDay setHours0 now startDate =
           \<lparr>week = 0, day = 0, message = Some ''Program hasn't started yet!''\<rparr>"
    using assms by (simp add: getWeekAndDay_def)
next
  assume "startDate = PROGRAM_START_DATE"
  with assms have "setHours0 now < setHours0 PROGRAM_START_DATE" by simp
  then show "renderTodayWorkout setHours0 now WORKOUT_PLAN = CompletedOrNotStarted 0 0"
    by (simp add: getWeekAndDay_def renderTodayWorkout_def)
qed

text \<open>On a host in UTC the normalisation is the one of the zone with offset 0.\<close>

lemma zoneMidnight_utc: "zoneMidnight (\<lambda>t. 0) t = utcMidnight t"
  by (simp add: zoneMidnight_def utcMidnight_def)

text \<open>
  The elapsed time between two local midnights is not always a multiple of 24 hours. When
  a clock change makes it one hour longer, the ceiling counts a further day; when it makes
  it one hour shorter, the ceiling restores the calendar count.
\<close>

lemma fall_back_week:
  assumes "setHours0 now = setHours0 startDate + 7 * 86400000 + 3600000"
  shows "getWeekAndDay setHours0 now startDate = \<lparr>week = 2, day = 2, message = None\<rparr>"
proof -
  from assms have le: "setHours0 startDate \<le> setHours0 now" by simp
  from assms have d: "- ((setHours0 startDate - setHours0 now) div 86400000) = 8" by simp
  show ?thesis
    by (simp add: getWeekAndDay_started[of setHours0 startDate now, OF le] d)
qed

lemma spring_forward_week:
  assumes "setHours0 now = setHours0 startDate + 7 * 86400000 - 3600000"
  shows "getWeekAndDay setHours0 now startDate = \<lparr>week = 2, day = 1, message = None\<rparr>"
proof -
  from assms have le: "setHours0 startDate \<le> setHours0 now" by simp
  from assms have d: "- ((setHours0 startDate - setHours0 now) div 86400000) = 7" by simp
  show ?thesis
    by (simp add: getWeekAndDay_started[of setHours0 startDate now, OF le] d)
qed

text \<open>
  With the start date of the program, a host in Berlin is in week 17, day 2 at 11:00 UTC
  on 27 October 2025, 112 calendar days after the start date: the clocks went back the day
  before.
\<close>

lemma berlin_after_fall_back:
  "localDay berlin (PROGRAM_START_DATE + 112 * 86400000 + 11 * 3600000) =
     PROGRAM_START_DATE div 86400000 + 112 \<and>
   getWeekAndDay (zoneMidnight berlin) (PROGRAM_START_DATE + 112 * 86400000 + 11 * 3600000)
     PROGRAM_START_DATE = \<lparr>week = 17, day = 2, message = None\<rparr>"
proof
  show "localDay berlin (PROGRAM_START_DATE + 112 * 86400000 + 11 * 3600000) =
          PROGRAM_START_DATE div 86400000 + 112"
    by (simp add: localDay_def berlin_def PROGRAM_START_DATE_def)
next
  have le: "zoneMidnight berlin PROGRAM_START_DATE \<le>
            zoneMidnight berlin (PROGRAM_START_DATE + 112 * 86400000 + 11 * 3600000)"
    by (simp add: zoneMidnight_def berlin_def PROGRAM_START_DATE_def Let_def)
  show "getWeekAndDay (zoneMidnight berlin) (PROGRAM_START_DATE + 112 * 86400000 + 11 * 3600000)
          PROGRAM_START_DATE = \<lparr>week = 17, day = 2, message = None\<rparr>"
    unfolding getWeekAndDay_started[of "zoneMidnight berlin" PROGRAM_START_DATE
                "PROGRAM_START_DATE + 112 * 86400000 + 11 * 3600000", OF le]
    by (simp add: zoneMidnight_def berlin_def PROGRAM_START_DATE_def Let_def)
qed

section \<open>The daily metrics store\<close>

text \<open>
  C1, as stated: every save merges field-wise, so that saving \<open>{steps: 10}\<close> and then
  \<open>{water: 2}\<close> for the same date leaves \<open>steps = 10\<close> and \<open>water = 2\<close>. The code does not
  do this. \<open>saveDailyData\<close> replaces the whole record, so after the two calls the record has
  no \<open>steps\<close> at all; and the daily save button, the only caller that saves steps and water,
  writes all six fields with an empty input stored as 0, so after the two clicks \<open>steps\<close> is 0.
\<close>

theorem C1_partial_save_counterexample:
  "storedField (snd (saveDailyData ''2025-01-01'' [''water'' \<mapsto> JNum (Num 2)]
                  (snd (saveDailyData ''2025-01-01'' [''steps'' \<mapsto> JNum (Num 10)] emptyDB))))
               ''2025-01-01'' ''steps'' = None \<and>
   storedField (snd (saveDailyDataBtn_click ''2025-01-01'' NaN (Num 2) NaN NaN NaN NaN
                  (snd (saveDailyDataBtn_click ''2025-01-01'' (Num 10) NaN NaN NaN NaN NaN emptyDB))))
               ''2025-01-01'' ''steps'' = Some (JNum (Num 0))"
  by (simp add: storedField_def saveDailyData_def saveDailyDataBtn_click_def emptyDB_def validKey_def
        orZero_def truthy_def renderDashboardData_def getDailyData_def Let_def)

text \<open>
  C1, amended: the macros save is the read-merge-write path. When it reports success, the
  four macro fields of the stored record are the entered values (0 for an empty input) and
  every other field, \<open>steps\<close> and \<open>water\<close> in particular, keeps its stored value.
  \<open>saveDailyData\<close> itself stores exactly \<open>{ date, ...data }\<close>: a field that is absent from
  \<open>data\<close> is absent from the stored record. The daily save button, when it reports success,
  has stored the date and all six metric fields, each the entered value or 0 for an empty
  input, and nothing else.
\<close>

theorem C1_macros_merge_fieldwise:
  "(keyedAt db today \<and> fst (saveMacrosBtn_click today c p cb f db) = Alert ''Macros saved!'' \<longrightarrow>
      storedField (snd (saveMacrosBtn_click today c p cb f db)) today fld =
        (if fld = ''fat'' then Some (JNum (orZero f))
         else if fld = ''carbs'' then Some (JNum (orZero cb))
         else if fld = ''protein'' then Some (JNum (orZero p))
         else if fld = ''calories'' then Some (JNum (orZero c))
         else if fld = ''date'' then Some (JStr today)
         else storedField db today fld)) \<and>
   (dom data \<subseteq> metricFields \<and> fst (saveDailyData today data db) = Inr () \<longrightarrow>
      storedField (snd (saveDailyData today data db)) today fld =
        (if fld = ''date'' then Some (JStr today) else data fld)) \<and>
   (fst (saveDailyDataBtn_click today ds dw dc dp dcb df db) = Alert ''Daily data saved!'' \<longrightarrow>
      storedField (snd (saveDailyDataBtn_click today ds dw dc dp dcb df db)) today fld =
        (if fld = ''fat'' then Some (JNum (orZero df))
         else if fld = ''carbs'' then Some (JNum (orZero dcb))
         else if fld = ''protein'' then Some (JNum (orZero dp))
         else if fld = ''calories'' then Some (JNum (orZero dc))
         else if fld = ''water'' then Some (JNum (orZero dw))
         else if fld = ''steps'' then Some (JNum (orZero ds))
         else if fld = ''date'' then Some (JStr today)
         else None))"
proof (intro conjI impI)
  assume a: "keyedAt db today \<and> fst (saveMacrosBtn_click today c p cb f db) = Alert ''Macros saved!''"
  then have inv: "keyedAt db today"
    and ok: "fst (saveMacrosBtn_click today c p cb f db) = Alert ''Macros saved!''"
    by simp_all
  have st: "dailyData (snd (saveMacrosBtn_click today c p cb f db)) (JStr today) =
          Some ([''date'' \<mapsto> JStr today] ++ withMacros (existingData db today) c p cb f)"
    by (simp add: macros_click_saved[OF ok] existing_key[OF inv])
  show "storedField (snd (saveMacrosBtn_click today c p cb f db)) today fld =
        (if fld = ''fat'' then Some (JNum (orZero f))
         else if fld = ''carbs'' then Some (JNum (orZero cb))
         else if fld = ''protein'' then Some (JNum (orZero p))
         else if fld = ''calories'' then Some (JNum (orZero c))
         else if fld = ''date'' then Some (JStr today)
         else storedField db today fld)"
  proof (cases "dailyData db (JStr today)")
    case None
    then show ?thesis
      by (simp add: storedField_def st withMacros_def existingData_def map_add_def)
  next
    case (Some r)
    with inv have "r ''date'' = Some (JStr today)" by (simp add: keyedAt_def)
    with Some show ?thesis
      by (simp add: storedField_def st withMacros_def existingData_def map_add_def split: option.splits)
  qed
next
  assume a: "dom data \<subseteq> metricFields \<and> fst (saveDailyData today data db) = Inr ()"
  then have ok: "fst (saveDailyData today data db) = Inr ()" and m: "dom data \<subseteq> metricFields"
    by simp_all
  have "''date'' \<notin> metricFields" by (simp add: metricFields_def)
  with m have nd: "data ''date'' = None" by blast
  show "storedField (snd (saveDailyData today data db)) today fld =
        (if fld = ''date'' then Some (JStr today) else data fld)"
  proof -
    have "dailyData (snd (saveDailyData today data db)) (JStr today) =
            Some ([''date'' \<mapsto> JStr today] ++ data)"
      by (simp add: saveDailyData_ok[OF ok] metric_key[OF m])
    then show ?thesis
      using nd by (simp add: storedField_def map_add_def split: option.splits)
  qed
next
  assume a: "fst (saveDailyDataBtn_click today ds dw dc dp dcb df db) = Alert ''Daily data saved!''"
  have "dailyData (snd (saveDailyDataBtn_click today ds dw dc dp dcb df db)) (JStr today) =
          Some ([''date'' \<mapsto> JStr today] ++ dailyFields ds dw dc dp dcb df)"
    by (simp add: dashboard_click_dailyData saveDailyData_ok[OF dashboard_click_ok[OF a]]
          dailyFields_key)
  then show "storedField (snd (saveDailyDataBtn_click today ds dw dc dp dcb df db)) today fld =
        (if fld = ''fat'' then Some (JNum (orZero df))
         else if fld = ''carbs'' then Some (JNum (orZero dcb))
         else if fld = ''protein'' then Some (JNum (orZero dp))
         else if fld = ''calories'' then Some (JNum (orZero dc))
         else if fld = ''water'' then Some (JNum (orZero dw))
         else if fld = ''steps'' then Some (JNum (orZero ds))
         else if fld = ''date'' then Some (JStr today)
         else None)"
    by (simp add: storedField_def dailyFields_def map_add_def)
qed

theorem C1_macros_merge_fieldwise_witness:
  "keyedAt sampleDB ''2025-01-01'' \<and>
   fst (saveMacrosBtn_click ''2025-01-01'' (Num 2000) NaN NaN NaN sampleDB) = Alert ''Macros saved!'' \<and>
   storedField (snd (saveMacrosBtn_click ''2025-01-01'' (Num 2000) NaN NaN NaN sampleDB))
     ''2025-01-01'' ''steps'' = Some (JNum (Num 10)) \<and>
   dom [''water'' \<mapsto> JNum (Num 3)] \<subseteq> metricFields \<and>
   fst (saveDailyData ''2025-01-01'' [''water'' \<mapsto> JNum (Num 3)] sampleDB) = Inr () \<and>
   storedField (snd (saveDailyData ''2025-01-01'' [''water'' \<mapsto> JNum (Num 3)] sampleDB))
     ''2025-01-01'' ''steps'' = None \<and>
   fst (saveDailyDataBtn_click ''2025-01-01'' NaN (Num 3) NaN NaN NaN NaN sampleDB) =
     Alert ''Daily data saved!'' \<and>
   storedField (snd (saveDailyDataBtn_click ''2025-01-01'' NaN (Num 3) NaN NaN NaN NaN sampleDB))
     ''2025-01-01'' ''steps'' = Some (JNum (Num 0))"
proof -
  have k: "keyedAt sampleDB ''2025-01-01''"
    by (simp add: keyedAt_def sampleDB_def)
  have s: "fst (saveMacrosBtn_click ''2025-01-01'' (Num 2000) NaN NaN NaN sampleDB) = Alert ''Macros saved!''"
    by (simp add: saveMacrosBtn_click_def saveDailyData_def getDailyData_def sampleDB_def
          validKey_def orZero_def truthy_def Let_def)
  have m: "dom [''water'' \<mapsto> JNum (Num 3)] \<subseteq> metricFields"
    by (simp add: metricFields_def)
  have r: "fst (saveDailyData ''2025-01-01'' [''water'' \<mapsto> JNum (Num 3)] sampleDB) = Inr ()"
    by (simp add: saveDailyData_def sampleDB_def validKey_def Let_def)
  have b: "fst (saveDailyDataBtn_click ''2025-01-01'' NaN (Num 3) NaN NaN NaN NaN sampleDB) =
             Alert ''Daily data saved!''"
    by (simp add: saveDailyDataBtn_click_def saveDailyData_def sampleDB_def validKey_def Let_def)
  have o: "storedField sampleDB ''2025-01-01'' ''steps'' = Some (JNum (Num 10))"
    by (simp add: storedField_def sampleDB_def)
  have z: "orZero NaN = Num 0"
    by (simp add: orZero_def truthy_def)
  show ?thesis
    using C1_macros_merge_fieldwise[of sampleDB "''2025-01-01''" "Num 2000" NaN NaN NaN "''steps''"
            "[''water'' \<mapsto> JNum (Num 3)]" NaN "Num 3" NaN NaN NaN NaN] k s m r b o z
    by simp
qed

text \<open>
  C6: when the read that starts the macros save fails, the handler reports the error and
  stops: the only request it has issued is that read, no write follows, and both stores
  are as they were.
\<close>

theorem C6_failed_read_aborts_without_write:
  assumes "aborts db (length (issued db))"
  shows "dailyData (snd (saveMacrosBtn_click today c p cb f db)) = dailyData db \<and>
         weights (snd (saveMacrosBtn_click today c p cb f db)) = weights db \<and>
         issued (snd (saveMacrosBtn_click today c p cb f db)) =
           (if anyMacro c p cb f then issued db @ [Get ''dailyData'' (JStr today)] else issued db) \<and>
         fst (saveMacrosBtn_click today c p cb f db) =
           (if anyMacro c p cb f
            then AlertError ''Error saving macros: '' (Reject ''Error getting daily data'')
            else Alert ''Please enter at least one macro value.'')"
  using assms by (simp add: macros_click_unfold getDailyData_def Let_def)

theorem C6_failed_read_aborts_without_write_witness:
  "aborts failingDB (length (issued failingDB)) \<and>
   dailyData (snd (saveMacrosBtn_click ''2025-01-01'' (Num 2000) NaN NaN NaN failingDB)) =
     dailyData failingDB \<and>
   issued (snd (saveMacrosBtn_click ''2025-01-01'' (Num 2000) NaN NaN NaN failingDB)) =
     [Get ''dailyData'' (JStr ''2025-01-01'')]"
proof -
  have h: "aborts failingDB (length (issued failingDB))"
    by (simp add: failingDB_def)
  have g: "anyMacro (Num 2000) NaN NaN NaN"
    by (simp add: anyMacro_def orZero_def truthy_def)
  have i: "issued failingDB = []"
    by (simp add: failingDB_def)
  show ?thesis
    using C6_failed_read_aborts_without_write[OF h, of "''2025-01-01''" "Num 2000" NaN NaN NaN] h g i
    by simp
qed

text \<open>
  C7, as stated: saving \<open>{steps: 5000}\<close> for a date without a record and reading the record
  back returns the full record, the omitted fields present and equal to 0. With
  \<open>saveDailyData\<close> called on that object the record read back is \<open>{ date, steps }\<close>: it has
  no \<open>water\<close>, and no other omitted field either.
\<close>

theorem C7_direct_save_counterexample:
  "fst (getDailyData ''2025-01-01''
          (snd (saveDailyData ''2025-01-01'' [''steps'' \<mapsto> JNum (Num 5000)] emptyDB))) =
     Inr (Some [''date'' \<mapsto> JStr ''2025-01-01'', ''steps'' \<mapsto> JNum (Num 5000)]) \<and>
   storedField (snd (saveDailyData ''2025-01-01'' [''steps'' \<mapsto> JNum (Num 5000)] emptyDB))
     ''2025-01-01'' ''water'' = None"
  by (simp add: saveDailyData_def validKey_def getDailyData_def storedField_def Let_def emptyDB_def)

text \<open>
  C7, amended: entering only 5000 steps and clicking the daily save button, then reading
  the record of that date, returns the full record: the date, \<open>steps = 5000\<close> and the five
  other fields present and equal to 0. \<open>saveDailyData\<close> called with \<open>{steps: 5000}\<close> and
  then the read return the record \<open>{ date, steps: 5000 }\<close>. In both cases the backend is
  assumed to accept the write and the read.
\<close>

theorem C7_save_steps_then_read:
  "(\<not> aborts db (length (issued db)) \<and> \<not> aborts db (length (issued db) + 2) \<longrightarrow>
      fst (saveDailyDataBtn_click today (Num 5000) NaN NaN NaN NaN NaN db) =
        Alert ''Daily data saved!'' \<and>
      fst (getDailyData today
             (snd (saveDailyDataBtn_click today (Num 5000) NaN NaN NaN NaN NaN db))) =
        Inr (Some [''date'' \<mapsto> JStr today, ''steps'' \<mapsto> JNum (Num 5000),
                   ''water'' \<mapsto> JNum (Num 0), ''calories'' \<mapsto> JNum (Num 0),
                   ''protein'' \<mapsto> JNum (Num 0), ''carbs'' \<mapsto> JNum (Num 0),
                   ''fat'' \<mapsto> JNum (Num 0)])) \<and>
   (\<not> aborts db (length (issued db)) \<and> \<not> aborts db (length (issued db) + 1) \<longrightarrow>
      fst (saveDailyData today [''steps'' \<mapsto> JNum (Num 5000)] db) = Inr () \<and>
      fst (getDailyData today (snd (saveDailyData today [''steps'' \<mapsto> JNum (Num 5000)] db))) =
        Inr (Some [''date'' \<mapsto> JStr today, ''steps'' \<mapsto> JNum (Num 5000)]))"
proof (intro conjI impI)
  assume "\<not> aborts db (length (issued db)) \<and> \<not> aborts db (length (issued db) + 2)"
  then have a: "\<not> aborts db (length (issued db))" and b: "\<not> aborts db (length (issued db) + 2)"
    by simp_all
  from a show "fst (saveDailyDataBtn_click today (Num 5000) NaN NaN NaN NaN NaN db) =
                 Alert ''Daily data saved!''"
    by (simp add: saveDailyData_def saveDailyDataBtn_click_def validKey_def Let_def)
  from a b show "fst (getDailyData today
             (snd (saveDailyDataBtn_click today (Num 5000) NaN NaN NaN NaN NaN db))) =
        Inr (Some [''date'' \<mapsto> JStr today, ''steps'' \<mapsto> JNum (Num 5000),
                   ''water'' \<mapsto> JNum (Num 0), ''calories'' \<mapsto> JNum (Num 0),
                   ''protein'' \<mapsto> JNum (Num 0), ''carbs'' \<mapsto> JNum (Num 0),
                   ''fat'' \<mapsto> JNum (Num 0)])"
    by (simp add: saveDailyData_def saveDailyDataBtn_click_def validKey_def
          orZero_def truthy_def renderDashboardData_def getDailyData_def Let_def)
next
  assume "\<not> aborts db (length (issued db)) \<and> \<not> aborts db (length (issued db) + 1)"
  then have a: "\<not> aborts db (length (issued db))" and b: "\<not> aborts db (length (issued db) + 1)"
    by simp_all
  from a show "fst (saveDailyData today [''steps'' \<mapsto> JNum (Num 5000)] db) = Inr ()"
    by (simp add: saveDailyData_def validKey_def Let_def)
  from a b show "fst (getDailyData today
                   (snd (saveDailyData today [''steps'' \<mapsto> JNum (Num 5000)] db))) =
        Inr (Some [''date'' \<mapsto> JStr today, ''steps'' \<mapsto> JNum (Num 5000)])"
    by (simp add: saveDailyData_def validKey_def getDailyData_def Let_def)
qed

theorem C7_save_steps_then_read_witness:
  "\<not> aborts sampleDB (length (issued sampleDB)) \<and>
   \<not> aborts sampleDB (length (issued sampleDB) + 1) \<and>
   \<not> aborts sampleDB (length (issued sampleDB) + 2) \<and>
   fst (getDailyData ''2025-01-02''
          (snd (saveDailyDataBtn_click ''2025-01-02'' (Num 5000) NaN NaN NaN NaN NaN sampleDB))) =
     Inr (Some [''date'' \<mapsto> JStr ''2025-01-02'', ''steps'' \<mapsto> JNum (Num 5000),
                ''water'' \<mapsto> JNum (Num 0), ''calories'' \<mapsto> JNum (Num 0),
                ''protein'' \<mapsto> JNum (Num 0), ''carbs'' \<mapsto> JNum (Num 0),
                ''fat'' \<mapsto> JNum (Num 0)]) \<and>
   fst (getDailyData ''2025-01-02''
          (snd (saveDailyData ''2025-01-02'' [''steps'' \<mapsto> JNum (Num 5000)] sampleDB))) =
     Inr (Some [''date'' \<mapsto> JStr ''2025-01-02'', ''steps'' \<mapsto> JNum (Num 5000)])"
proof -
  have h0: "\<not> aborts sampleDB (length (issued sampleDB))"
    by (simp add: sampleDB_def)
  have h1: "\<not> aborts sampleDB (length (issued sampleDB) + 1)"
    by (simp add: sampleDB_def)
  have h2: "\<not> aborts sampleDB (length (issued sampleDB) + 2)"
    by (simp add: sampleDB_def)
  show ?thesis
    using C7_save_steps_then_read[of sampleDB "''2025-01-02''"] h0 h1 h2 by blast
qed

text \<open>
  C8: a save that is repeated leaves the same stored records as the save done once,
  provided the first save was not failed by the backend. This holds for \<open>saveDailyData\<close>
  with any data, for the daily save button and for the macros save (whose second run reads
  the record the first one wrote).
\<close>

theorem C8_upsert_idempotent:
  "(fst (saveDailyData d data db) \<noteq> Inl (Reject ''Error saving daily data'') \<longrightarrow>
      dailyData (snd (saveDailyData d data (snd (saveDailyData d data db)))) =
      dailyData (snd (saveDailyData d data db))) \<and>
   (fst (saveDailyDataBtn_click d s w c p cb f db) = Alert ''Daily data saved!'' \<longrightarrow>
      dailyData (snd (saveDailyDataBtn_click d s w c p cb f
                        (snd (saveDailyDataBtn_click d s w c p cb f db)))) =
      dailyData (snd (saveDailyDataBtn_click d s w c p cb f db))) \<and>
   ((\<forall>e. fst (saveMacrosBtn_click d c p cb f db) \<noteq> AlertError ''Error saving macros: '' e) \<longrightarrow>
      dailyData (snd (saveMacrosBtn_click d c p cb f (snd (saveMacrosBtn_click d c p cb f db)))) =
      dailyData (snd (saveMacrosBtn_click d c p cb f db)))"
  by (intro conjI impI saveDailyData_twice dashboard_twice macros_twice)

theorem C8_upsert_idempotent_witness:
  "fst (saveDailyData ''2025-01-01'' [''steps'' \<mapsto> JNum (Num 10)] sampleDB) \<noteq>
     Inl (Reject ''Error saving daily data'') \<and>
   fst (saveDailyDataBtn_click ''2025-01-01'' (Num 10) NaN (Num 2000) NaN NaN NaN sampleDB) =
     Alert ''Daily data saved!'' \<and>
   (\<forall>e. fst (saveMacrosBtn_click ''2025-01-01'' (Num 2000) NaN NaN NaN sampleDB) \<noteq>
          AlertError ''Error saving macros: '' e) \<and>
   dailyData (snd (saveDailyData ''2025-01-01'' [''steps'' \<mapsto> JNum (Num 10)]
                (snd (saveDailyData ''2025-01-01'' [''steps'' \<mapsto> JNum (Num 10)] sampleDB)))) =
     dailyData (snd (saveDailyData ''2025-01-01'' [''steps'' \<mapsto> JNum (Num 10)] sampleDB)) \<and>
   dailyData (snd (saveDailyDataBtn_click ''2025-01-01'' (Num 10) NaN (Num 2000) NaN NaN NaN
                (snd (saveDailyDataBtn_click ''2025-01-01'' (Num 10) NaN (Num 2000) NaN NaN NaN sampleDB)))) =
     dailyData (snd (saveDailyDataBtn_click ''2025-01-01'' (Num 10) NaN (Num 2000) NaN NaN NaN sampleDB)) \<and>
   dailyData (snd (saveMacrosBtn_click ''2025-01-01'' (Num 2000) NaN NaN NaN
                (snd (saveMacrosBtn_click ''2025-01-01'' (Num 2000) NaN NaN NaN sampleDB)))) =
     dailyData (snd (saveMacrosBtn_click ''2025-01-01'' (Num 2000) NaN NaN NaN sampleDB))"
proof -
  have h1: "fst (saveDailyData ''2025-01-01'' [''steps'' \<mapsto> JNum (Num 10)] sampleDB) \<noteq>
              Inl (Reject ''Error saving daily data'')"
    by (simp add: saveDailyData_def sampleDB_def validKey_def Let_def)
  have h2: "fst (saveDailyDataBtn_click ''2025-01-01'' (Num 10) NaN (Num 2000) NaN NaN NaN sampleDB) =
              Alert ''Daily data saved!''"
    by (simp add: saveDailyDataBtn_click_def saveDailyData_def sampleDB_def validKey_def Let_def)
  have h3: "\<forall>e. fst (saveMacrosBtn_click ''2025-01-01'' (Num 2000) NaN NaN NaN sampleDB) \<noteq>
              AlertError ''Error saving macros: '' e"
    by (simp add: saveMacrosBtn_click_def saveDailyData_def getDailyData_def sampleDB_def
          validKey_def orZero_def truthy_def Let_def)
  show ?thesis
    using C8_upsert_idempotent[of "''2025-01-01''" "[''steps'' \<mapsto> JNum (Num 10)]" sampleDB
            "Num 10" NaN "Num 2000" NaN NaN NaN] h1 h2 h3
    by blast
qed

text \<open>
  C9: a save for the date \<open>d1\<close> leaves every record stored under another key of
  \<open>dailyData\<close>, and the whole of \<open>weights\<close>, unchanged. For \<open>saveDailyData\<close> the data are a
  set of metric fields; for the macros save the record read back carries its own key as
  \<open>date\<close>, as the store guarantees.
\<close>

theorem C9_other_dates_unchanged:
  assumes "k \<noteq> JStr d1"
  shows "(dom data \<subseteq> metricFields \<longrightarrow>
            dailyData (snd (saveDailyData d1 data db)) k = dailyData db k \<and>
            weights (snd (saveDailyData d1 data db)) = weights db) \<and>
         dailyData (snd (saveDailyDataBtn_click d1 s w c p cb f db)) k = dailyData db k \<and>
         weights (snd (saveDailyDataBtn_click d1 s w c p cb f db)) = weights db \<and>
         (keyedAt db d1 \<longrightarrow>
            dailyData (snd (saveMacrosBtn_click d1 c p cb f db)) k = dailyData db k \<and>
            weights (snd (saveMacrosBtn_click d1 c p cb f db)) = weights db)"
proof (intro conjI impI)
  assume "dom data \<subseteq> metricFields"
  then show "dailyData (snd (saveDailyData d1 data db)) k = dailyData db k"
    using assms by (intro saveDailyData_frame metric_key)
next
  show "dailyData (snd (saveDailyDataBtn_click d1 s w c p cb f db)) k = dailyData db k"
    using assms by (simp add: dashboard_click_dailyData saveDailyData_frame[OF dailyFields_key])
next
  assume "keyedAt db d1"
  then show "dailyData (snd (saveMacrosBtn_click d1 c p cb f db)) k = dailyData db k"
    using assms by (rule macros_frame)
qed (simp_all only: saveDailyData_rest macros_weights dashboard_weights)

theorem C9_other_dates_unchanged_witness:
  "JStr ''2025-01-01'' \<noteq> JStr ''2025-01-02'' \<and>
   dom [''steps'' \<mapsto> JNum (Num 5)] \<subseteq> metricFields \<and>
   keyedAt sampleDB ''2025-01-02'' \<and>
   dailyData (snd (saveDailyData ''2025-01-02'' [''steps'' \<mapsto> JNum (Num 5)] sampleDB))
     (JStr ''2025-01-01'') = dailyData sampleDB (JStr ''2025-01-01'') \<and>
   dailyData (snd (saveDailyDataBtn_click ''2025-01-02'' (Num 5) NaN (Num 5) NaN NaN NaN sampleDB))
     (JStr ''2025-01-01'') = dailyData sampleDB (JStr ''2025-01-01'') \<and>
   dailyData (snd (saveMacrosBtn_click ''2025-01-02'' (Num 5) NaN NaN NaN sampleDB))
     (JStr ''2025-01-01'') = dailyData sampleDB (JStr ''2025-01-01'')"
proof -
  have h: "JStr ''2025-01-01'' \<noteq> JStr ''2025-01-02''"
    by simp
  have m: "dom [''steps'' \<mapsto> JNum (Num 5)] \<subseteq> metricFields"
    by (simp add: metricFields_def)
  have k: "keyedAt sampleDB ''2025-01-02''"
    by (simp add: keyedAt_def sampleDB_def)
  show ?thesis
    using C9_other_dates_unchanged[OF h, of "[''steps'' \<mapsto> JNum (Num 5)]" sampleDB
            "Num 5" NaN "Num 5" NaN NaN NaN] h m k
    by blast
qed

text \<open>
  C10: when each of the four macro inputs is empty or zero, the macros save is refused
  before it reaches the store: the handler only shows its message, and the database,
  with its trace of issued requests, is exactly as it was.
\<close>

theorem C10_empty_macros_refused:
  assumes "c = NaN \<or> c = Num 0" and "p = NaN \<or> p = Num 0"
    and "cb = NaN \<or> cb = Num 0" and "f = NaN \<or> f = Num 0"
  shows "saveMacrosBtn_click today c p cb f db =
           (Alert ''Please enter at least one macro value.'', db)"
  using assms by (auto simp: saveMacrosBtn_click_def orZero_def truthy_def)

theorem C10_empty_macros_refused_witness:
  "(NaN = NaN \<or> NaN = Num 0) \<and> (Num 0 = NaN \<or> Num 0 = Num 0) \<and>
   saveMacrosBtn_click ''2025-01-01'' NaN (Num 0) NaN (Num 0) sampleDB =
     (Alert ''Please enter at least one macro value.'', sampleDB)"
proof -
  have a: "NaN = NaN \<or> NaN = Num 0" by simp
  have b: "Num 0 = NaN \<or> Num 0 = Num 0" by simp
  show ?thesis
    using C10_empty_macros_refused[OF a b a b, of "''2025-01-01''" sampleDB] a b by simp
qed

section \<open>The weight log\<close>

text \<open>
  C5: a weight that is not a number, zero or negative is refused: the handler only shows
  its message and the database is exactly as it was. A strictly positive weight is saved:
  the handler issues the write of \<open>{ date, weight }\<close> to \<open>weights\<close> and, when the backend
  accepts it, the sample is stored under the date and the daily records are untouched.
\<close>

theorem C5_weight_must_be_positive:
  "(weight = NaN \<or> (\<exists>w. weight = Num w \<and> w \<le> 0) \<longrightarrow>
      saveWeightBtn_click today weight db = (Alert ''Please enter a valid weight.'', db)) \<and>
   ((\<exists>w. weight = Num w \<and> 0 < w) \<longrightarrow>
      issued (snd (saveWeightBtn_click today weight db)) =
        issued db @ Put ''weights'' [''date'' \<mapsto> JStr today, ''weight'' \<mapsto> JNum weight] #
          (if aborts db (length (issued db)) then [] else [GetAll ''weights'']) \<and>
      (\<not> aborts db (length (issued db)) \<longrightarrow>
         fst (saveWeightBtn_click today weight db) = Alert ''Weight saved!'' \<and>
         weights (snd (saveWeightBtn_click today weight db)) =
           (weights db)(JStr today \<mapsto> [''date'' \<mapsto> JStr today, ''weight'' \<mapsto> JNum weight]) \<and>
         dailyData (snd (saveWeightBtn_click today weight db)) = dailyData db))"
  by (auto simp: saveWeightBtn_click_def gtZero_def saveWeight_def renderWeightHistory_def Let_def)

theorem C5_weight_must_be_positive_witness:
  "saveWeightBtn_click ''2025-01-02'' (Num 0) sampleDB =
     (Alert ''Please enter a valid weight.'', sampleDB) \<and>
   \<not> aborts sampleDB (length (issued sampleDB)) \<and>
   weights (snd (saveWeightBtn_click ''2025-01-02'' (Num 81.5) sampleDB)) (JStr ''2025-01-02'') =
     Some [''date'' \<mapsto> JStr ''2025-01-02'', ''weight'' \<mapsto> JNum (Num 81.5)]"
proof -
  have z: "Num 0 = NaN \<or> (\<exists>w. Num 0 = Num w \<and> w \<le> 0)" by simp
  have q: "\<exists>w. Num 81.5 = Num w \<and> 0 < w" by (intro exI[of _ "81.5"]) simp
  have n: "\<not> aborts sampleDB (length (issued sampleDB))"
    by (simp add: sampleDB_def)
  show ?thesis
    using C5_weight_must_be_positive[of "Num 0" "''2025-01-02''" sampleDB]
          C5_weight_must_be_positive[of "Num 81.5" "''2025-01-02''" sampleDB] z q n
    by simp
qed

section \<open>The program calendar\<close>

text \<open>
  C2: on the start date the coordinate is to be \<open>(week 1, day 1)\<close> and seven days later
  \<open>(week 2, day 1)\<close>. On a host west of UTC the code gives \<open>(1, 2)\<close> and \<open>(2, 2)\<close>: the
  string \<open>'2025-07-07'\<close> is parsed as midnight UTC, which is the afternoon of 6 July there,
  and \<open>setHours(0, 0, 0, 0)\<close> moves it to the local midnight of 6 July. The instants are noon
  in Los Angeles on 7 July and on 14 July 2025.
\<close>

theorem C2_start_date_west_of_utc:
  "localDay pacificDaylight (PROGRAM_START_DATE + 19 * 3600000) =
     PROGRAM_START_DATE div 86400000 \<and>
   getWeekAndDay (zoneMidnight pacificDaylight) (PROGRAM_START_DATE + 19 * 3600000)
     PROGRAM_START_DATE = \<lparr>week = 1, day = 2, message = None\<rparr> \<and>
   localDay pacificDaylight (PROGRAM_START_DATE + 7 * 86400000 + 19 * 3600000) =
     PROGRAM_START_DATE div 86400000 + 7 \<and>
   getWeekAndDay (zoneMidnight pacificDaylight) (PROGRAM_START_DATE + 7 * 86400000 + 19 * 3600000)
     PROGRAM_START_DATE = \<lparr>week = 2, day = 2, message = None\<rparr>"
proof (intro conjI)
  show "localDay pacificDaylight (PROGRAM_START_DATE + 19 * 3600000) =
          PROGRAM_START_DATE div 86400000"
    by (simp add: localDay_def pacificDaylight_def PROGRAM_START_DATE_def)
  show "localDay pacificDaylight (PROGRAM_START_DATE + 7 * 86400000 + 19 * 3600000) =
          PROGRAM_START_DATE div 86400000 + 7"
    by (simp add: localDay_def pacificDaylight_def PROGRAM_START_DATE_def)
next
  have le: "zoneMidnight pacificDaylight PROGRAM_START_DATE \<le>
            zoneMidnight pacificDaylight (PROGRAM_START_DATE + 19 * 3600000)"
    by (simp add: zoneMidnight_def pacificDaylight_def PROGRAM_START_DATE_def Let_def)
  show "getWeekAndDay (zoneMidnight pacificDaylight) (PROGRAM_START_DATE + 19 * 3600000)
          PROGRAM_START_DATE = \<lparr>week = 1, day = 2, message = None\<rparr>"
    unfolding getWeekAndDay_started[of "zoneMidnight pacificDaylight" PROGRAM_START_DATE
                "PROGRAM_START_DATE + 19 * 3600000", OF le]
    by (simp add: zoneMidnight_def pacificDaylight_def PROGRAM_START_DATE_def Let_def)
next
  have le: "zoneMidnight pacificDaylight PROGRAM_START_DATE \<le>
            zoneMidnight pacificDaylight (PROGRAM_START_DATE + 7 * 86400000 + 19 * 3600000)"
    by (simp add: zoneMidnight_def pacificDaylight_def PROGRAM_START_DATE_def Let_def)
  show "getWeekAndDay (zoneMidnight pacificDaylight)
          (PROGRAM_START_DATE + 7 * 86400000 + 19 * 3600000) PROGRAM_START_DATE =
          \<lparr>week = 2, day = 2, message = None\<rparr>"
    unfolding getWeekAndDay_started[of "zoneMidnight pacificDaylight" PROGRAM_START_DATE
                "PROGRAM_START_DATE + 7 * 86400000 + 19 * 3600000", OF le]
    by (simp add: zoneMidnight_def pacificDaylight_def PROGRAM_START_DATE_def Let_def)
qed

text \<open>
  C3: on a date before the start date the calendar is to return the coordinate
  \<open>week = 0\<close>, \<open>day = 0\<close> of a program that has not started, without looking the plan up.
  On a host west of UTC the code does not: at noon in Los Angeles on 6 July 2025, the day
  before the start date, \<open>getWeekAndDay\<close> returns \<open>(week 1, day 1)\<close> with no message and
  \<open>renderTodayWorkout\<close> looks the plan up and shows the workout of week 1, day 1.
\<close>

theorem C3_day_before_start_west_of_utc:
  "localDay pacificDaylight (PROGRAM_START_DATE - 5 * 3600000) =
     PROGRAM_START_DATE div 86400000 - 1 \<and>
   getWeekAndDay (zoneMidnight pacificDaylight) (PROGRAM_START_DATE - 5 * 3600000)
     PROGRAM_START_DATE = \<lparr>week = 1, day = 1, message = None\<rparr> \<and>
   renderTodayWorkout (zoneMidnight pacificDaylight) (PROGRAM_START_DATE - 5 * 3600000)
     firstDayPlan =
     TodaysWorkout 1 1 \<lparr>type = ''Full Body Strength A'',
        description = ''Focus on compound movements to build a solid foundation.'',
        exercises = None\<rparr>"
proof -
  have le: "zoneMidnight pacificDaylight PROGRAM_START_DATE \<le>
            zoneMidnight pacificDaylight (PROGRAM_START_DATE - 5 * 3600000)"
    by (simp add: zoneMidnight_def pacificDaylight_def PROGRAM_START_DATE_def Let_def)
  have c: "getWeekAndDay (zoneMidnight pacificDaylight) (PROGRAM_START_DATE - 5 * 3600000)
             PROGRAM_START_DATE = \<lparr>week = 1, day = 1, message = None\<rparr>"
    unfolding getWeekAndDay_started[of "zoneMidnight pacificDaylight" PROGRAM_START_DATE
                "PROGRAM_START_DATE - 5 * 3600000", OF le]
    by (simp add: zoneMidnight_def pacificDaylight_def PROGRAM_START_DATE_def Let_def)
  have d: "localDay pacificDaylight (PROGRAM_START_DATE - 5 * 3600000) =
             PROGRAM_START_DATE div 86400000 - 1"
    by (simp add: localDay_def pacificDaylight_def PROGRAM_START_DATE_def)
  have r: "renderTodayWorkout (zoneMidnight pacificDaylight) (PROGRAM_START_DATE - 5 * 3600000)
             firstDayPlan =
           TodaysWorkout 1 1 \<lparr>type = ''Full Body Strength A'',
             description = ''Focus on compound movements to build a solid foundation.'',
             exercises = None\<rparr>"
    unfolding renderTodayWorkout_def c by (simp add: firstDayPlan_def)
  from d c r show ?thesis by blast
qed

text \<open>
  C4: when the computed week is beyond 26, \<open>renderTodayWorkout\<close> shows the summary of a
  program that is over, with the computed week and day, whatever the plan contains at that
  coordinate: the plan is not looked up.
\<close>

theorem C4_completed_after_26_weeks:
  assumes "26 < week (getWeekAndDay setHours0 now PROGRAM_START_DATE)"
  shows "renderTodayWorkout setHours0 now WORKOUT_PLAN =
           CompletedOrNotStarted (week (getWeekAndDay setHours0 now PROGRAM_START_DATE))
                                 (day (getWeekAndDay setHours0 now PROGRAM_START_DATE))"
  using assms by (simp add: renderTodayWorkout_def Let_def)

theorem C4_completed_after_26_weeks_witness:
  "26 < week (getWeekAndDay utcMidnight (PROGRAM_START_DATE + 182 * 86400000) PROGRAM_START_DATE) \<and>
   latePlan 27 \<noteq> None \<and>
   renderTodayWorkout utcMidnight (PROGRAM_START_DATE + 182 * 86400000) latePlan =
     CompletedOrNotStarted 27 1"
proof -
  have le: "utcMidnight PROGRAM_START_DATE \<le> utcMidnight (PROGRAM_START_DATE + 182 * 86400000)"
    by (simp add: utcMidnight_def PROGRAM_START_DATE_def)
  have c: "getWeekAndDay utcMidnight (PROGRAM_START_DATE + 182 * 86400000) PROGRAM_START_DATE =
             \<lparr>week = 27, day = 1, message = None\<rparr>"
    unfolding getWeekAndDay_started[of utcMidnight PROGRAM_START_DATE
                "PROGRAM_START_DATE + 182 * 86400000", OF le]
    by (simp add: utcMidnight_def PROGRAM_START_DATE_def)
  have h: "26 < week (getWeekAndDay utcMidnight (PROGRAM_START_DATE + 182 * 86400000) PROGRAM_START_DATE)"
    unfolding c by simp
  have p: "latePlan 27 \<noteq> None"
    by (simp add: latePlan_def)
  note r = C4_completed_after_26_weeks[of utcMidnight "PROGRAM_START_DATE + 182 * 86400000" latePlan,
             OF h]
  have "renderTodayWorkout utcMidnight (PROGRAM_START_DATE + 182 * 86400000) latePlan =
          CompletedOrNotStarted 27 1"
    using r[unfolded c] by simp
  with h p show ?thesis by blast
qed

end
